theory Spec2Isabelle
  imports Main "HOL-Library.Word"
begin

section \<open>The A2A server components of protocols.py\<close>

text \<open>
  A shallow embedding of the server side of \<^verbatim>\<open>protocols.py\<close>: the pydantic models of
  \<^verbatim>\<open>models.py\<close> that it handles, \<^verbatim>\<open>A2ATaskRouter\<close>, \<^verbatim>\<open>A2ATaskContext\<close>,
  \<^verbatim>\<open>A2ATaskResult\<close> and \<^verbatim>\<open>A2ATaskManager\<close>. Every operation is modelled as one call
  running alone: the asyncio locks then only leave their entry in the lock table, and a
  deep copy is the value itself.
\<close>

subsection \<open>Python values\<close>

text \<open>
  \<^verbatim>\<open>x or d\<close> on an \<^verbatim>\<open>Optional[str]\<close>: \<^verbatim>\<open>None\<close> and the empty string are both falsy.
  \<^verbatim>\<open>if x:\<close> on such a value is \<open>truthy\<close>.
\<close>

fun truthy :: "string option \<Rightarrow> bool" where
  "truthy None = False"
| "truthy (Some s) = (s \<noteq> [])"

fun py_or :: "string option \<Rightarrow> string \<Rightarrow> string" where
  "py_or None d = d"
| "py_or (Some s) d = (if s = [] then d else s)"

text \<open>An \<^verbatim>\<open>Optional[str]\<close> inside an f-string: \<^verbatim>\<open>None\<close> prints as \<^verbatim>\<open>None\<close>.\<close>

fun py_str :: "string option \<Rightarrow> string" where
  "py_str None = ''None''"
| "py_str (Some s) = s"

definition quote :: string where
  "quote = [CHR 0x27]"

text \<open>
  \<^verbatim>\<open>xs[i:]\<close>: a negative start counts from the end, and a start outside the list is
  clamped. \<^verbatim>\<open>xs[-n:]\<close> is \<open>py_slice_from (- n) xs\<close>; since \<^verbatim>\<open>-0\<close> is \<^verbatim>\<open>0\<close>,
  \<^verbatim>\<open>xs[-0:]\<close> is the whole list.
\<close>

definition py_slice_from :: "int \<Rightarrow> 'a list \<Rightarrow> 'a list" where
  "py_slice_from i xs =
     (let n = int (length xs);
          start = (if i < 0 then max (n + i) 0 else min i n)
      in drop (nat start) xs)"

text \<open>The exceptions the modelled code raises, as values.\<close>

datatype py_exception =
    A2AError string int
  | KeyError string
  | ValueError string
  | NotImplementedError string

fun code :: "py_exception \<Rightarrow> int option" where
  "code (A2AError msg c) = Some c"
| "code _ = None"

subsection \<open>The data model (models.py)\<close>

text \<open>
  Fields keep the names of the pydantic classes, with a prefix where two classes share a
  name. A \<^verbatim>\<open>Dict[str, Any]\<close> is an association list with string values (the only key the
  code reads is \<^verbatim>\<open>skill_id\<close>). The per-part metadata, which no modelled function reads,
  and the wall-clock \<^verbatim>\<open>timestamp\<close> of a status are left out.
\<close>

type_synonym py_dict = "(string \<times> string) list"


record a2a_file =
  name :: "string option"
  mimeType :: "string option"
  bytes :: "string option"
  uri :: "string option"

datatype a2a_part =
    A2ATextPart string
  | A2AFilePart a2a_file
  | A2ADataPart py_dict

record a2a_message =
  role :: string
  parts :: "a2a_part list"
  metadata :: "py_dict option"

record a2a_artifact =
  art_name :: "string option"
  art_description :: "string option"
  art_parts :: "a2a_part list"
  art_metadata :: "py_dict option"
  art_index :: int
  art_append :: "bool option"
  art_lastChunk :: "bool option"

record a2a_task_state =
  state :: string
  message :: "a2a_message option"

record a2a_task =
  task_id :: string
  sessionId :: "string option"
  status :: a2a_task_state
  history :: "a2a_message list"
  artifacts :: "a2a_artifact list"
  task_metadata :: "py_dict option"

record a2a_task_send_params =
  params_id :: string
  params_sessionId :: "string option"
  params_message :: a2a_message
  acceptedOutputModes :: "string list"
  historyLength :: "int option"
  params_metadata :: "py_dict option"

text \<open>
  The two update events of a stream, and what else the manager puts on a subscriber's
  queue (an \<^verbatim>\<open>A2AError\<close>).
\<close>

datatype queue_item =
    A2ATaskStatusUpdateEventResult string a2a_task_state bool
  | A2ATaskArtifactUpdateEventResult string a2a_artifact
  | QueuedError py_exception

subsection \<open>A2ATaskResult and handlers\<close>

text \<open>
  \<^verbatim>\<open>A2ATaskResult(status, message, artifacts)\<close> holds
  \<^verbatim>\<open>final_status = A2ATaskState(state=status, message=message)\<close> and
  \<^verbatim>\<open>artifacts or []\<close>.
\<close>

record a2a_task_result =
  final_status :: a2a_task_state
  result_artifacts :: "a2a_artifact list"

definition A2ATaskResult ::
  "string \<Rightarrow> a2a_message option \<Rightarrow> a2a_artifact list option \<Rightarrow> a2a_task_result" where
  "A2ATaskResult st msg arts =
     \<lparr>final_status = \<lparr>state = st, message = msg\<rparr>,
      result_artifacts = (case arts of None \<Rightarrow> [] | Some a \<Rightarrow> a)\<rparr>"

text \<open>
  A handler is user code \<^verbatim>\<open>async def handler(context) -> A2ATaskResult\<close>. Its run on the
  task copy of the context is the calls it makes on the context, in order, and then either
  the result it returns (\<open>Inr\<close>) or the text \<^verbatim>\<open>str(e)\<close> of the exception it raises
  (\<open>Inl\<close>).
\<close>

datatype context_call =
    UpdateStatus string "string option" bool
  | YieldArtifact a2a_artifact

record handler_run =
  calls :: "context_call list"
  outcome :: "string + a2a_task_result"

type_synonym handler = "a2a_task \<Rightarrow> handler_run"

text \<open>
  What \<^verbatim>\<open>register_handler\<close> is given: a coroutine function, or any other callable
  (\<^verbatim>\<open>asyncio.iscoroutinefunction\<close> tells them apart).
\<close>

datatype callable_obj =
    AsyncFunction handler
  | OtherCallable

subsection \<open>A2ATaskRouter\<close>

record a2a_task_router =
  handlers :: "string \<rightharpoonup> handler"
  default_handler :: "handler option"

definition router_init :: a2a_task_router where
  "router_init = \<lparr>handlers = Map.empty, default_handler = None\<rparr>"

definition register_handler :: "string \<Rightarrow> callable_obj \<Rightarrow> a2a_task_router \<Rightarrow> a2a_task_router" where
  "register_handler skill_id h r =
     (case h of
        OtherCallable \<Rightarrow> r
      | AsyncFunction f \<Rightarrow> r\<lparr>handlers := (handlers r)(skill_id \<mapsto> f)\<rparr>)"

definition register_default_handler :: "callable_obj \<Rightarrow> a2a_task_router \<Rightarrow> a2a_task_router" where
  "register_default_handler h r =
     (case h of
        OtherCallable \<Rightarrow> r
      | AsyncFunction f \<Rightarrow> r\<lparr>default_handler := Some f\<rparr>)"

text \<open>
  \<^verbatim>\<open>if skill_id and skill_id in self._handlers\<close>, \<^verbatim>\<open>elif self._default_handler\<close>,
  \<^verbatim>\<open>else: return None\<close>.
\<close>

definition get_handler :: "a2a_task_router \<Rightarrow> string option \<Rightarrow> handler option" where
  "get_handler r skill_id =
     (if truthy skill_id \<and> py_str skill_id \<in> dom (handlers r)
      then handlers r (py_str skill_id)
      else (case default_handler r of
              Some d \<Rightarrow> Some d
            | None \<Rightarrow> None))"

subsection \<open>The standard library's base64.b64decode\<close>






subsection \<open>A2ATaskContext\<close>

text \<open>
  The context holds the task copy and the subscriber's queue, when there is one. The queue
  is the list of the items put on it so far.
\<close>

record a2a_task_context =
  ctx_task :: a2a_task
  update_queue :: "queue_item list option"


definition agent_text_message :: "string \<Rightarrow> a2a_message" where
  "agent_text_message t = \<lparr>role = ''agent'', parts = [A2ATextPart t], metadata = None\<rparr>"

definition update_status ::
  "string \<Rightarrow> string option \<Rightarrow> bool \<Rightarrow> a2a_task_context \<Rightarrow> a2a_task_context" where
  "update_status st message_text final ctx =
     (case update_queue ctx of
        None \<Rightarrow> ctx
      | Some q \<Rightarrow>
          let status_message =
                (if truthy message_text then Some (agent_text_message (py_str message_text))
                 else None);
              update_event =
                A2ATaskStatusUpdateEventResult (task_id (ctx_task ctx))
                  \<lparr>state = st, message = status_message\<rparr> final
          in ctx\<lparr>update_queue := Some (q @ [update_event])\<rparr>)"

definition yield_artifact :: "a2a_artifact \<Rightarrow> a2a_task_context \<Rightarrow> a2a_task_context" where
  "yield_artifact artifact ctx =
     (case update_queue ctx of
        None \<Rightarrow> ctx
      | Some q \<Rightarrow>
          ctx\<lparr>update_queue :=
                Some (q @ [A2ATaskArtifactUpdateEventResult (task_id (ctx_task ctx)) artifact])\<rparr>)"

fun run_calls :: "context_call list \<Rightarrow> a2a_task_context \<Rightarrow> a2a_task_context" where
  "run_calls [] ctx = ctx"
| "run_calls (UpdateStatus st txt final # cs) ctx = run_calls cs (update_status st txt final ctx)"
| "run_calls (YieldArtifact a # cs) ctx = run_calls cs (yield_artifact a ctx)"

definition queue_of :: "a2a_task_context \<Rightarrow> queue_item list" where
  "queue_of ctx = (case update_queue ctx of None \<Rightarrow> [] | Some q \<Rightarrow> q)"

subsection \<open>The knowledge base\<close>

text \<open>
  Modelled from the spec: \<^verbatim>\<open>APIA_KnowledgeBase\<close> is imported from the module
  \<^verbatim>\<open>framework\<close>, which is not among the sources. The spec gives it
  \<^verbatim>\<open>getMetric(category, name, default)\<close> and \<^verbatim>\<open>updateMetric(category, name, value)\<close>
  and calls it an opaque, always-available sink: a store of counters that never fails.
\<close>

type_synonym knowledge_base = "(string \<times> string) \<rightharpoonup> int"

definition get_metric :: "knowledge_base \<Rightarrow> string \<Rightarrow> string \<Rightarrow> int \<Rightarrow> int" where
  "get_metric k category nm dflt = (case k (category, nm) of None \<Rightarrow> dflt | Some v \<Rightarrow> v)"

definition update_metric :: "string \<Rightarrow> string \<Rightarrow> int \<Rightarrow> knowledge_base \<Rightarrow> knowledge_base" where
  "update_metric category nm v k = k((category, nm) \<mapsto> v)"

subsection \<open>A2ATaskManager\<close>

text \<open>
  An entry of the dead-letter queue is \<^verbatim>\<open>(task_id, method, reason)\<close>. The reason is an
  f-string around a value; each constructor stands for one of the four templates:
  \<^verbatim>\<open>No suitable handler found (Skill ID: {skill_id})\<close>,
  \<^verbatim>\<open>Handler failed: {result.final_status.message}\<close>,
  \<^verbatim>\<open>Handler exception: {e}\<close> and
  \<^verbatim>\<open>Stream handler failed: {final_status.message}\<close>.
\<close>

datatype dlq_reason =
    NoSuitableHandler "string option"
  | HandlerFailed "a2a_message option"
  | HandlerException string
  | StreamHandlerFailed "a2a_message option"

text \<open>
  The manager's fields. \<open>task_locks\<close> is the set of ids that have a lock. The table
  \<^verbatim>\<open>_streaming_queues\<close> is written by the HTTP route only and is left out.
\<close>

record a2a_task_manager =
  tasks :: "string \<rightharpoonup> a2a_task"
  task_locks :: "string set"
  kb :: knowledge_base
  router :: a2a_task_router
  a2a_dlq :: "(string \<times> string \<times> dlq_reason) list"

definition manager_init :: "knowledge_base \<Rightarrow> a2a_task_router \<Rightarrow> a2a_task_manager" where
  "manager_init k r =
     \<lparr>tasks = Map.empty, task_locks = {}, kb = k, router = r, a2a_dlq = []\<rparr>"

definition get_task_lock :: "string \<Rightarrow> a2a_task_manager \<Rightarrow> a2a_task_manager" where
  "get_task_lock tid m = m\<lparr>task_locks := insert tid (task_locks m)\<rparr>"

text \<open>
  The body of \<^verbatim>\<open>async def _update_task_state\<close>: what the coroutine does when it runs.
\<close>

definition update_task_state ::
  "string \<Rightarrow> a2a_task_state option \<Rightarrow> a2a_message option \<Rightarrow> a2a_artifact list option \<Rightarrow> bool
     \<Rightarrow> a2a_task_manager \<Rightarrow> a2a_task_manager" where
  "update_task_state tid new_status history_append arts replace_artifacts m =
     (case tasks m tid of
        None \<Rightarrow> m
      | Some task \<Rightarrow>
          let t1 = (case new_status of
                      Some s \<Rightarrow> task\<lparr>status := s\<rparr>
                    | None \<Rightarrow> task);
              t2 = (case history_append of
                      Some msg \<Rightarrow> t1\<lparr>history := history t1 @ [msg]\<rparr>
                    | None \<Rightarrow> t1);
              t3 = (case arts of
                      Some a \<Rightarrow> t2\<lparr>artifacts := a\<rparr>
                    | None \<Rightarrow> if replace_artifacts then t2\<lparr>artifacts := []\<rparr> else t2)
          in m\<lparr>tasks := (tasks m)(tid \<mapsto> t3)\<rparr>)"

text \<open>
  Every call site of \<^verbatim>\<open>_update_task_state\<close> (lines 559, 577, 587, 611, 648 and 678) is
  the bare expression statement \<^verbatim>\<open>self._update_task_state(...)\<close>, with no
  \<^verbatim>\<open>await\<close>. Calling an \<^verbatim>\<open>async def\<close> function only builds a coroutine object; its
  body runs when the object is awaited or scheduled. Here the object is dropped at once, so
  none of the body runs and the manager is as before.
\<close>

definition not_awaited :: "('s \<Rightarrow> 's) \<Rightarrow> 's \<Rightarrow> 's" where
  "not_awaited coroutine s = s"

definition add_to_dlq ::
  "string option \<Rightarrow> string \<Rightarrow> dlq_reason \<Rightarrow> a2a_task_manager \<Rightarrow> a2a_task_manager" where
  "add_to_dlq tid_opt method reason m =
     (let tid = py_or tid_opt ''unknown'';
          dlq = a2a_dlq m @ [(tid, method, reason)];
          dlq_count = int (length dlq)
      in m\<lparr>a2a_dlq := dlq, kb := update_metric ''a2a_tasks'' ''dlq_count'' dlq_count (kb m)\<rparr>)"

text \<open>
  \<^verbatim>\<open>await self.kb.update_metric("a2a_tasks", c, await self.kb.get_metric("a2a_tasks", c, 0) + 1)\<close>
\<close>

definition count_metric :: "string \<Rightarrow> a2a_task_manager \<Rightarrow> a2a_task_manager" where
  "count_metric c m =
     m\<lparr>kb := update_metric ''a2a_tasks'' c (get_metric (kb m) ''a2a_tasks'' c 0 + 1) (kb m)\<rparr>"

definition skill_id_of :: "a2a_task_send_params \<Rightarrow> string option" where
  "skill_id_of p =
     (case metadata (params_message p) of
        None \<Rightarrow> None
      | Some md \<Rightarrow> if md = [] then None else map_of md ''skill_id'')"

definition get_handler_for_task ::
  "a2a_task_send_params \<Rightarrow> a2a_task_manager \<Rightarrow> (py_exception + handler) \<times> a2a_task_manager" where
  "get_handler_for_task p m =
     (let skill_id = skill_id_of p in
      case get_handler (router m) skill_id of
        None \<Rightarrow>
          (Inl (A2AError (''No suitable agent handler found for skill '' @ quote
                            @ py_str skill_id @ quote) (- 32601)),
           add_to_dlq (Some (params_id p)) ''tasks/send'' (NoSuitableHandler skill_id) m)
      | Some h \<Rightarrow> (Inr h, m))"

text \<open>
  The first locked section, lines 550 to 569 of \<^verbatim>\<open>handle_task_send\<close> and, statement for
  statement, lines 603 to 620 of \<^verbatim>\<open>handle_task_send_subscribe\<close>. The two differ only in
  how they report a state that takes no message, so that is left to the caller: \<open>Inl\<close>
  carries the refused state. Otherwise the result is the task copy and the manager.
\<close>

definition accepting_states :: "string list" where
  "accepting_states = [''input-required'', ''completed'', ''working'', ''submitted'', ''canceled'']"

definition working_status :: a2a_task_state where
  "working_status = \<lparr>state = ''working'', message = None\<rparr>"

definition enter_task ::
  "string \<Rightarrow> a2a_task_send_params \<Rightarrow> a2a_task_manager \<Rightarrow> string + (a2a_task \<times> a2a_task_manager)" where
  "enter_task session_id p m =
     (case tasks m (params_id p) of
        Some task \<Rightarrow>
          if state (status task) \<notin> set accepting_states then Inl (state (status task))
          else
            let task' = task\<lparr>history := history task @ [params_message p],
                             sessionId := Some session_id,
                             status := working_status\<rparr>;
                m' = m\<lparr>tasks := (tasks m)(params_id p \<mapsto> task')\<rparr>
            in Inr (task',
                    not_awaited (update_task_state (params_id p) (Some (status task')) None None False) m')
      | None \<Rightarrow>
          let task = \<lparr>task_id = params_id p, sessionId = Some session_id,
                      status = working_status, history = [params_message p],
                      artifacts = [], task_metadata = params_metadata p\<rparr>
          in Inr (task, count_metric ''received'' (m\<lparr>tasks := (tasks m)(params_id p \<mapsto> task)\<rparr>)))"

text \<open>
  The \<^verbatim>\<open>try\<close>/\<^verbatim>\<open>except\<close> of \<^verbatim>\<open>handle_task_send\<close>, lines 572 to 589, from the handler's
  outcome on. A context without a queue ignores the handler's calls.
\<close>

definition failed_status :: "string \<Rightarrow> a2a_task_state" where
  "failed_status e =
     \<lparr>state = ''failed'', message = Some (agent_text_message (''Internal error: '' @ e))\<rparr>"

definition settle_send ::
  "string \<Rightarrow> string + a2a_task_result \<Rightarrow> a2a_task_manager \<Rightarrow> a2a_task_manager" where
  "settle_send tid out m =
     (case out of
        Inr result \<Rightarrow>
          let m1 = not_awaited (update_task_state tid (Some (final_status result)) None
                                  (Some (result_artifacts result)) True) (get_task_lock tid m)
          in if state (final_status result) = ''completed'' then count_metric ''completed'' m1
             else if state (final_status result) = ''failed'' then
               add_to_dlq (Some tid) ''tasks/send''
                 (HandlerFailed (message (final_status result))) (count_metric ''failed'' m1)
             else m1
      | Inl e \<Rightarrow>
          let m1 = not_awaited (update_task_state tid (Some (failed_status e)) None None True)
                     (get_task_lock tid m)
          in add_to_dlq (Some tid) ''tasks/send'' (HandlerException e) (count_metric ''failed'' m1))"

text \<open>
  \<^verbatim>\<open>handle_task_send\<close>. \<open>uuid4\<close> is the string \<^verbatim>\<open>str(uuid.uuid4())\<close> would give on
  this call. The last line reads \<^verbatim>\<open>self._tasks[task_id]\<close>, a \<^verbatim>\<open>KeyError\<close> were the id
  gone.
\<close>

definition handle_task_send ::
  "string \<Rightarrow> a2a_task_send_params \<Rightarrow> a2a_task_manager
     \<Rightarrow> (py_exception + a2a_task) \<times> a2a_task_manager" where
  "handle_task_send uuid4 p m =
     (let tid = params_id p;
          session_id = py_or (params_sessionId p) uuid4
      in case get_handler_for_task p m of
           (Inl err, m1) \<Rightarrow> (Inl err, m1)
         | (Inr h, m1) \<Rightarrow>
             (case enter_task session_id p (get_task_lock tid m1) of
                Inl st \<Rightarrow>
                  (Inl (A2AError (''Task '' @ tid @ '' in invalid state '' @ st) (- 32004)),
                   get_task_lock tid m1)
              | Inr (task_copy, m2) \<Rightarrow>
                  let m3 = get_task_lock tid (settle_send tid (outcome (h task_copy)) m2)
                  in (case tasks m3 tid of
                        Some t \<Rightarrow> (Inr t, m3)
                      | None \<Rightarrow> (Inl (KeyError tid), m3))))"

text \<open>
  \<^verbatim>\<open>final_status.message.parts[0].text if final_status.message else None\<close> (line 633):
  an \<^verbatim>\<open>IndexError\<close> on a message without parts and an \<^verbatim>\<open>AttributeError\<close> on a first
  part that is not a text part, as \<open>Inl\<close> of the exception's text.
\<close>

definition first_part_text :: "a2a_message option \<Rightarrow> string + string option" where
  "first_part_text msg =
     (case msg of
        None \<Rightarrow> Inr None
      | Some ms \<Rightarrow>
          (case parts ms of
             [] \<Rightarrow> Inl ''list index out of range''
           | A2ATextPart t # rest \<Rightarrow> Inr (Some t)
           | A2AFilePart f # rest \<Rightarrow>
               Inl (quote @ ''A2AFilePart'' @ quote @ '' object has no attribute ''
                      @ quote @ ''text'' @ quote)
           | A2ADataPart d # rest \<Rightarrow>
               Inl (quote @ ''A2ADataPart'' @ quote @ '' object has no attribute ''
                      @ quote @ ''text'' @ quote)))"

text \<open>The \<^verbatim>\<open>finally\<close> block of \<^verbatim>\<open>handle_task_send_subscribe\<close>, lines 646 to 651.\<close>

definition stream_finally ::
  "string \<Rightarrow> a2a_task_state \<Rightarrow> a2a_artifact list option \<Rightarrow> a2a_task_manager \<Rightarrow> a2a_task_manager" where
  "stream_finally tid fin final_artifacts m =
     (let m1 = not_awaited (update_task_state tid (Some fin) None final_artifacts True) m;
          metric_category = (if state fin = ''completed'' then ''completed'' else ''failed'');
          m2 = (if metric_category = ''failed'' then
                  add_to_dlq (Some tid) ''tasks/sendSubscribe''
                    (StreamHandlerFailed (message fin)) m1
                else m1)
      in count_metric metric_category m2)"

text \<open>The \<^verbatim>\<open>except\<close> block, lines 635 to 643, followed by the \<^verbatim>\<open>finally\<close> block.\<close>

definition stream_except ::
  "string \<Rightarrow> string \<Rightarrow> a2a_artifact list option \<Rightarrow> a2a_task_context \<Rightarrow> a2a_task_manager
     \<Rightarrow> queue_item list \<times> a2a_task_manager" where
  "stream_except tid e final_artifacts ctx m =
     (let fin = failed_status e;
          ctx' = update_status (state fin) (Some (''Internal error: '' @ e)) True ctx;
          m1 = add_to_dlq (Some tid) ''tasks/sendSubscribe'' (HandlerException e) m
      in (queue_of ctx', stream_finally tid fin final_artifacts m1))"

text \<open>
  \<^verbatim>\<open>handle_task_send_subscribe\<close>. \<open>q\<close> is what the subscriber's queue holds at the call;
  the result is the exception raised, if any, the queue and the manager at the return.
\<close>

definition handle_task_send_subscribe ::
  "string \<Rightarrow> a2a_task_send_params \<Rightarrow> queue_item list \<Rightarrow> a2a_task_manager
     \<Rightarrow> py_exception option \<times> queue_item list \<times> a2a_task_manager" where
  "handle_task_send_subscribe uuid4 p q m =
     (let tid = params_id p;
          session_id = py_or (params_sessionId p) uuid4
      in case get_handler_for_task p m of
           (Inl err, m1) \<Rightarrow> (Some err, q, m1)
         | (Inr h, m1) \<Rightarrow>
             (case enter_task session_id p (get_task_lock tid m1) of
                Inl st \<Rightarrow>
                  (None, q @ [QueuedError (A2AError (''Task in invalid state '' @ st) (- 32004))],
                   get_task_lock tid m1)
              | Inr (task_copy, m2) \<Rightarrow>
                  let ctx0 = \<lparr>ctx_task = task_copy, update_queue = Some q\<rparr>;
                      ctx1 = update_status ''working'' (Some ''Task submitted for processing...'')
                               False ctx0;
                      run = h task_copy;
                      ctx2 = run_calls (calls run) ctx1
                  in (case outcome run of
                        Inl e \<Rightarrow>
                          (case stream_except tid e None ctx2 m2 of (q', m') \<Rightarrow> (None, q', m'))
                      | Inr result \<Rightarrow>
                          (case first_part_text (message (final_status result)) of
                             Inl e \<Rightarrow>
                               (case stream_except tid e (Some (result_artifacts result)) ctx2 m2 of
                                  (q', m') \<Rightarrow> (None, q', m'))
                           | Inr txt \<Rightarrow>
                               (None,
                                queue_of (update_status (state (final_status result)) txt True ctx2),
                                stream_finally tid (final_status result)
                                  (Some (result_artifacts result)) m2)))))"

definition not_found :: "string \<Rightarrow> py_exception" where
  "not_found tid = A2AError (''Task '' @ tid @ '' not found'') (- 32001)"

definition handle_task_get ::
  "string \<Rightarrow> int \<Rightarrow> a2a_task_manager \<Rightarrow> (py_exception + a2a_task) \<times> a2a_task_manager" where
  "handle_task_get tid history_length m =
     (let m1 = get_task_lock tid m in
      case tasks m1 tid of
        None \<Rightarrow> (Inl (not_found tid), m1)
      | Some task \<Rightarrow>
          let task_copy = task in
          if history_length \<ge> 0 \<and> history task_copy \<noteq> [] then
            (Inr (task_copy\<lparr>history := py_slice_from (- history_length) (history task_copy)\<rparr>), m1)
          else if history_length = 0 then (Inr (task_copy\<lparr>history := []\<rparr>), m1)
          else (Inr task_copy, m1))"

definition terminal_states :: "string list" where
  "terminal_states = [''completed'', ''failed'', ''canceled'']"

definition handle_task_cancel ::
  "string \<Rightarrow> a2a_task_manager \<Rightarrow> (py_exception + a2a_task) \<times> a2a_task_manager" where
  "handle_task_cancel tid m =
     (let m1 = get_task_lock tid m in
      case tasks m1 tid of
        None \<Rightarrow> (Inl (not_found tid), m1)
      | Some task \<Rightarrow>
          let m2 = (if state (status task) \<in> set terminal_states then m1
                    else
                      let canceled_status = \<lparr>state = ''canceled'', message = None\<rparr>;
                          m' = not_awaited (update_task_state tid (Some canceled_status) None None True) m1
                      in count_metric ''canceled'' m')
          in (case tasks m2 tid of
                Some t \<Rightarrow> (Inr t, m2)
              | None \<Rightarrow> (Inl (KeyError tid), m2)))"

subsection \<open>Sample values for concrete runs\<close>

text \<open>
  Handlers: one that returns \<^verbatim>\<open>A2ATaskResult()\<close>, one that raises
  \<^verbatim>\<open>Exception("boom")\<close>, and one that calls \<^verbatim>\<open>context.update_status("working")\<close> once and
  returns a completed result with one text artifact.
\<close>

definition idle_handler :: handler where
  "idle_handler t = \<lparr>calls = [], outcome = Inr (A2ATaskResult ''completed'' None None)\<rparr>"

definition raising_handler :: handler where
  "raising_handler t = \<lparr>calls = [], outcome = Inl ''boom''\<rparr>"

definition sample_artifact :: a2a_artifact where
  "sample_artifact =
     \<lparr>art_name = Some ''answer'', art_description = None, art_parts = [A2ATextPart ''42''],
      art_metadata = None, art_index = 0, art_append = Some False, art_lastChunk = None\<rparr>"

definition reporting_handler :: handler where
  "reporting_handler t =
     \<lparr>calls = [UpdateStatus ''working'' None False],
      outcome = Inr (A2ATaskResult ''completed'' None (Some [sample_artifact]))\<rparr>"

definition user_message :: a2a_message where
  "user_message =
     \<lparr>role = ''user'', parts = [A2ATextPart ''hello''], metadata = Some [(''skill_id'', ''echo'')]\<rparr>"

definition sample_params :: "string option \<Rightarrow> a2a_task_send_params" where
  "sample_params sid =
     \<lparr>params_id = ''t1'', params_sessionId = sid, params_message = user_message,
      acceptedOutputModes = [''text/plain'', ''application/json''], historyLength = Some 0,
      params_metadata = None\<rparr>"

definition stored_task :: "string \<Rightarrow> a2a_task" where
  "stored_task st =
     \<lparr>task_id = ''t1'', sessionId = Some ''s-old'', status = \<lparr>state = st, message = None\<rparr>,
      history = [user_message], artifacts = [sample_artifact], task_metadata = None\<rparr>"

definition fresh_manager :: "handler \<Rightarrow> a2a_task_manager" where
  "fresh_manager h =
     manager_init Map.empty (register_handler ''echo'' (AsyncFunction h) router_init)"

definition manager_with :: "a2a_task \<Rightarrow> handler \<Rightarrow> a2a_task_manager" where
  "manager_with t h = (fresh_manager h)\<lparr>tasks := [''t1'' \<mapsto> t]\<rparr>"

definition unrouted_manager :: a2a_task_manager where
  "unrouted_manager = manager_init Map.empty router_init"

section \<open>Properties\<close>

subsection \<open>What each step leaves alone\<close>

lemma not_awaited_id [simp]: "not_awaited c s = s"
  by (simp add: not_awaited_def)

lemma get_task_lock_fields [simp]:
  "tasks (get_task_lock tid m) = tasks m"
  "a2a_dlq (get_task_lock tid m) = a2a_dlq m"
  "router (get_task_lock tid m) = router m"
  "kb (get_task_lock tid m) = kb m"
  "task_locks (get_task_lock tid m) = insert tid (task_locks m)"
  by (simp_all add: get_task_lock_def)

lemma count_metric_fields [simp]:
  "tasks (count_metric c m) = tasks m"
  "a2a_dlq (count_metric c m) = a2a_dlq m"
  "router (count_metric c m) = router m"
  "task_locks (count_metric c m) = task_locks m"
  by (simp_all add: count_metric_def)

lemma add_to_dlq_fields [simp]:
  "tasks (add_to_dlq t meth r m) = tasks m"
  "a2a_dlq (add_to_dlq t meth r m) = a2a_dlq m @ [(py_or t ''unknown'', meth, r)]"
  "router (add_to_dlq t meth r m) = router m"
  "task_locks (add_to_dlq t meth r m) = task_locks m"
  by (simp_all add: add_to_dlq_def Let_def)

lemma settle_send_tasks [simp]: "tasks (settle_send tid out m) = tasks m"
  by (cases out) (simp_all add: settle_send_def Let_def)

lemma stream_finally_tasks [simp]: "tasks (stream_finally tid fin arts m) = tasks m"
  by (simp add: stream_finally_def Let_def)

lemma stream_except_tasks [simp]: "tasks (snd (stream_except tid e arts ctx m)) = tasks m"
  by (simp add: stream_except_def Let_def)

lemma get_handler_for_task_None:
  "get_handler (router m) (skill_id_of p) = None \<Longrightarrow>
   get_handler_for_task p m =
     (Inl (A2AError (''No suitable agent handler found for skill '' @ quote
                        @ py_str (skill_id_of p) @ quote) (- 32601)),
      add_to_dlq (Some (params_id p)) ''tasks/send'' (NoSuitableHandler (skill_id_of p)) m)"
  by (simp add: get_handler_for_task_def Let_def)

lemma get_handler_for_task_Some:
  "get_handler (router m) (skill_id_of p) = Some h \<Longrightarrow> get_handler_for_task p m = (Inr h, m)"
  by (simp add: get_handler_for_task_def Let_def)

lemma sample_skill [simp]: "skill_id_of (sample_params sid) = Some ''echo''"
  by (simp add: skill_id_of_def sample_params_def user_message_def)

subsection \<open>The router\<close>

text \<open>
  Claim C9, as stated, fails for the empty skill id: \<^verbatim>\<open>register_handler("", h)\<close> stores
  \<^verbatim>\<open>h\<close> under \<^verbatim>\<open>""\<close>, and \<^verbatim>\<open>get_handler("")\<close> then skips the specific handlers,
  because \<^verbatim>\<open>if skill_id and ...\<close> takes the empty string for no skill id. With no
  default handler it returns \<^verbatim>\<open>None\<close>.
\<close>

theorem empty_skill_id_counterexample:
  "handlers (register_handler [] (AsyncFunction idle_handler) router_init) [] = Some idle_handler
   \<and> get_handler (register_handler [] (AsyncFunction idle_handler) router_init) (Some []) = None"
  by (simp add: register_handler_def router_init_def get_handler_def)

text \<open>
  Claim C9, amended: registering a callable that is not a coroutine function leaves the
  router as it was; registering a coroutine function stores it under the skill id and changes
  nothing else; \<^verbatim>\<open>get_handler\<close> returns the specific handler when the skill id is not
  empty and has one, and the default handler (\<^verbatim>\<open>None\<close> when there is none) when the skill
  id is absent, empty or has no specific handler.
\<close>

theorem router_register_resolve:
  "register_handler s OtherCallable r = r
   \<and> handlers (register_handler s (AsyncFunction f) r) = (handlers r)(s \<mapsto> f)
   \<and> default_handler (register_handler s (AsyncFunction f) r) = default_handler r
   \<and> (s \<noteq> [] \<and> handlers r s = Some f \<longrightarrow> get_handler r (Some s) = Some f)
   \<and> (sk = None \<or> sk = Some [] \<or> (\<exists>k. sk = Some k \<and> handlers r k = None)
        \<longrightarrow> get_handler r sk = default_handler r)"
  by (auto simp: register_handler_def get_handler_def split: option.splits)

theorem router_register_resolve_witness:
  "register_handler ''echo'' OtherCallable router_init = router_init
   \<and> get_handler (register_handler ''echo'' (AsyncFunction idle_handler) router_init) (Some ''echo'')
       = Some idle_handler
   \<and> get_handler (register_handler ''echo'' (AsyncFunction idle_handler) router_init) (Some ''other'')
       = None
   \<and> get_handler (register_default_handler (AsyncFunction idle_handler) router_init) None
       = Some idle_handler"
  using router_register_resolve [where s = "''echo''" and r = router_init and f = idle_handler
          and sk = "Some ''other''"]
        router_register_resolve [where s = "''echo''" and f = idle_handler and sk = "Some ''other''"
          and r = "register_handler ''echo'' (AsyncFunction idle_handler) router_init"]
        router_register_resolve [where s = "''echo''" and f = idle_handler and sk = None
          and r = "register_default_handler (AsyncFunction idle_handler) router_init"]
  by (simp add: register_handler_def register_default_handler_def router_init_def)

subsection \<open>File parts\<close>







subsection \<open>Requests no handler serves\<close>

text \<open>
  Claim C6: when the router resolves the request's skill id to no handler,
  \<^verbatim>\<open>handle_task_send\<close> raises an \<^verbatim>\<open>A2AError\<close> with code -32601, the dead-letter
  queue gains exactly one entry, for this task id and the method \<^verbatim>\<open>tasks/send\<close>, and
  the task registry and the lock table are as before.
\<close>

theorem unroutable_send:
  assumes "get_handler (router m) (skill_id_of p) = None"
  shows "fst (handle_task_send uuid4 p m)
           = Inl (A2AError (''No suitable agent handler found for skill '' @ quote
                              @ py_str (skill_id_of p) @ quote) (- 32601))
         \<and> a2a_dlq (snd (handle_task_send uuid4 p m))
           = a2a_dlq m @ [(py_or (Some (params_id p)) ''unknown'', ''tasks/send'',
                            NoSuitableHandler (skill_id_of p))]
         \<and> length (a2a_dlq (snd (handle_task_send uuid4 p m))) = length (a2a_dlq m) + 1
         \<and> tasks (snd (handle_task_send uuid4 p m)) = tasks m
         \<and> task_locks (snd (handle_task_send uuid4 p m)) = task_locks m"
  using get_handler_for_task_None [OF assms]
  by (simp add: handle_task_send_def Let_def)

theorem unroutable_send_witness:
  "get_handler (router unrouted_manager) (skill_id_of (sample_params None)) = None
   \<and> code (projl (fst (handle_task_send ''u-1'' (sample_params None) unrouted_manager))) = Some (- 32601)
   \<and> length (a2a_dlq (snd (handle_task_send ''u-1'' (sample_params None) unrouted_manager))) = 1
   \<and> tasks (snd (handle_task_send ''u-1'' (sample_params None) unrouted_manager)) ''t1'' = None"
proof -
  have h: "get_handler (router unrouted_manager) (skill_id_of (sample_params None)) = None"
    by (simp add: unrouted_manager_def manager_init_def router_init_def get_handler_def)
  show ?thesis
    using h unroutable_send [OF h, of "''u-1''"]
    by (simp add: unrouted_manager_def manager_init_def)
qed

subsection \<open>The first locked section and what follows it\<close>

lemma enter_task_existing:
  assumes "tasks m (params_id p) = Some t" and "state (status t) \<in> set accepting_states"
  shows "enter_task sid p m =
           Inr (t\<lparr>history := history t @ [params_message p], sessionId := Some sid,
                   status := working_status\<rparr>,
                m\<lparr>tasks := (tasks m)(params_id p \<mapsto>
                       t\<lparr>history := history t @ [params_message p], sessionId := Some sid,
                          status := working_status\<rparr>)\<rparr>)"
  using assms by (simp add: enter_task_def Let_def)

lemma enter_task_refused:
  assumes "tasks m (params_id p) = Some t" and "state (status t) \<notin> set accepting_states"
  shows "enter_task sid p m = Inl (state (status t))"
  using assms by (simp add: enter_task_def)

lemma enter_task_new:
  assumes "tasks m (params_id p) = None"
  shows "enter_task sid p m =
           Inr (\<lparr>task_id = params_id p, sessionId = Some sid, status = working_status,
                 history = [params_message p], artifacts = [], task_metadata = params_metadata p\<rparr>,
                count_metric ''received''
                  (m\<lparr>tasks := (tasks m)(params_id p \<mapsto>
                        \<lparr>task_id = params_id p, sessionId = Some sid, status = working_status,
                         history = [params_message p], artifacts = [],
                         task_metadata = params_metadata p\<rparr>)\<rparr>))"
  using assms by (simp add: enter_task_def Let_def)

text \<open>After the locked section the entered task is the one stored under the id.\<close>

lemma enter_task_stored:
  "enter_task sid p m = Inr (t', m') \<Longrightarrow> tasks m' = (tasks m)(params_id p \<mapsto> t')"
  by (auto simp: enter_task_def Let_def split: option.splits if_splits)

lemma enter_task_dlq:
  "enter_task sid p m = Inr (t', m') \<Longrightarrow> a2a_dlq m' = a2a_dlq m"
  by (auto simp: enter_task_def Let_def split: option.splits if_splits)

lemma enter_task_working:
  "enter_task sid p m = Inr (t', m') \<Longrightarrow> status t' = working_status"
  by (auto simp: enter_task_def Let_def split: option.splits if_splits)

lemma handle_task_send_entered:
  assumes r: "get_handler (router m) (skill_id_of p) = Some h"
    and e: "enter_task (py_or (params_sessionId p) u) p (get_task_lock (params_id p) m) = Inr (t', m')"
  shows "fst (handle_task_send u p m) = Inr t'"
    and "tasks (snd (handle_task_send u p m)) = (tasks m)(params_id p \<mapsto> t')"
proof -
  have st: "tasks m' = (tasks m)(params_id p \<mapsto> t')"
    using enter_task_stored [OF e] by simp
  show "fst (handle_task_send u p m) = Inr t'"
    using get_handler_for_task_Some [OF r] e st
    by (simp add: handle_task_send_def Let_def)
  show "tasks (snd (handle_task_send u p m)) = (tasks m)(params_id p \<mapsto> t')"
    using get_handler_for_task_Some [OF r] e st
    by (simp add: handle_task_send_def Let_def)
qed

lemma handle_task_send_refused:
  assumes r: "get_handler (router m) (skill_id_of p) = Some h"
    and t: "tasks m (params_id p) = Some t"
    and s: "state (status t) \<notin> set accepting_states"
  shows "handle_task_send u p m =
           (Inl (A2AError (''Task '' @ params_id p @ '' in invalid state '' @ state (status t))
                   (- 32004)),
            get_task_lock (params_id p) m)"
proof -
  have "enter_task (py_or (params_sessionId p) u) p (get_task_lock (params_id p) m)
          = Inl (state (status t))"
    using t s by (intro enter_task_refused) simp_all
  then show ?thesis
    using get_handler_for_task_Some [OF r] by (simp add: handle_task_send_def Let_def)
qed

text \<open>Whatever a task's run returns, a task that \<^verbatim>\<open>handle_task_send\<close> returns is working.\<close>

lemma handle_task_send_returns_working:
  assumes "fst (handle_task_send u p m) = Inr t"
  shows "status t = working_status"
proof (cases "get_handler (router m) (skill_id_of p)")
  case None
  then show ?thesis
    using assms get_handler_for_task_None [OF None] by (simp add: handle_task_send_def Let_def)
next
  case (Some h)
  show ?thesis
  proof (cases "enter_task (py_or (params_sessionId p) u) p (get_task_lock (params_id p) m)")
    case (Inl st)
    then show ?thesis
      using assms get_handler_for_task_Some [OF Some] by (simp add: handle_task_send_def Let_def)
  next
    case (Inr tm)
    obtain t' m' where tm: "tm = (t', m')" by (cases tm)
    have "fst (handle_task_send u p m) = Inr t'"
      using handle_task_send_entered(1) [OF Some] Inr tm by simp
    with assms have "t = t'" by simp
    then show ?thesis using enter_task_working Inr tm by blast
  qed
qed

lemma update_status_queued:
  assumes "update_queue ctx = Some q"
  shows "update_status st txt f ctx =
           ctx\<lparr>update_queue := Some (q @ [A2ATaskStatusUpdateEventResult (task_id (ctx_task ctx))
                    \<lparr>state = st,
                     message = (if truthy txt then Some (agent_text_message (py_str txt)) else None)\<rparr>
                    f])\<rparr>"
  using assms by (simp add: update_status_def Let_def)

lemma stream_except_queue:
  assumes "update_queue ctx = Some q"
  shows "fst (stream_except tid e arts ctx m) =
           q @ [A2ATaskStatusUpdateEventResult (task_id (ctx_task ctx)) (failed_status e) True]"
  using assms
  by (simp add: stream_except_def Let_def update_status_queued queue_of_def failed_status_def)

lemma stream_finally_dlq:
  "a2a_dlq (stream_finally tid fin arts m) =
     (if state fin = ''completed'' then a2a_dlq m
      else a2a_dlq m @ [(py_or (Some tid) ''unknown'', ''tasks/sendSubscribe'',
                          StreamHandlerFailed (message fin))])"
  by (simp add: stream_finally_def Let_def)

lemma stream_except_dlq:
  "a2a_dlq (snd (stream_except tid e arts ctx m)) =
     a2a_dlq m @ [(py_or (Some tid) ''unknown'', ''tasks/sendSubscribe'', HandlerException e),
                  (py_or (Some tid) ''unknown'', ''tasks/sendSubscribe'',
                   StreamHandlerFailed (message (failed_status e)))]"
  by (simp add: stream_except_def Let_def stream_finally_dlq failed_status_def)

lemma settle_send_dlq:
  "a2a_dlq (settle_send tid out m) =
     (case out of
        Inl e \<Rightarrow> a2a_dlq m @ [(py_or (Some tid) ''unknown'', ''tasks/send'', HandlerException e)]
      | Inr res \<Rightarrow>
          if state (final_status res) = ''failed''
          then a2a_dlq m @ [(py_or (Some tid) ''unknown'', ''tasks/send'',
                              HandlerFailed (message (final_status res)))]
          else a2a_dlq m)"
  by (cases out) (simp_all add: settle_send_def Let_def)

lemma handle_task_send_subscribe_entered:
  assumes r: "get_handler (router m) (skill_id_of p) = Some h"
    and e: "enter_task (py_or (params_sessionId p) u) p (get_task_lock (params_id p) m) = Inr (t', m')"
  shows "fst (handle_task_send_subscribe u p q m) = None"
    and "tasks (snd (snd (handle_task_send_subscribe u p q m))) = (tasks m)(params_id p \<mapsto> t')"
proof -
  have st: "tasks m' = (tasks m)(params_id p \<mapsto> t')"
    using enter_task_stored [OF e] by simp
  show "fst (handle_task_send_subscribe u p q m) = None"
    using get_handler_for_task_Some [OF r] e
    by (simp add: handle_task_send_subscribe_def Let_def split: sum.splits prod.splits)
  show "tasks (snd (snd (handle_task_send_subscribe u p q m))) = (tasks m)(params_id p \<mapsto> t')"
    using get_handler_for_task_Some [OF r] e st stream_except_tasks
    by (simp add: handle_task_send_subscribe_def Let_def split: sum.splits prod.splits)
qed

lemma handle_task_send_subscribe_refused:
  assumes r: "get_handler (router m) (skill_id_of p) = Some h"
    and t: "tasks m (params_id p) = Some t"
    and s: "state (status t) \<notin> set accepting_states"
  shows "handle_task_send_subscribe u p q m =
           (None,
            q @ [QueuedError (A2AError (''Task in invalid state '' @ state (status t)) (- 32004))],
            get_task_lock (params_id p) m)"
proof -
  have "enter_task (py_or (params_sessionId p) u) p (get_task_lock (params_id p) m)
          = Inl (state (status t))"
    using t s by (intro enter_task_refused) simp_all
  then show ?thesis
    using get_handler_for_task_Some [OF r] by (simp add: handle_task_send_subscribe_def Let_def)
qed

lemma handle_task_send_subscribe_raised:
  assumes r: "get_handler (router m) (skill_id_of p) = Some h"
    and e: "enter_task (py_or (params_sessionId p) u) p (get_task_lock (params_id p) m) = Inr (t', m')"
    and o: "outcome (h t') = Inl x"
  shows "a2a_dlq (snd (snd (handle_task_send_subscribe u p q m))) =
           a2a_dlq m @ [(py_or (Some (params_id p)) ''unknown'', ''tasks/sendSubscribe'', HandlerException x),
                        (py_or (Some (params_id p)) ''unknown'', ''tasks/sendSubscribe'',
                         StreamHandlerFailed (message (failed_status x)))]"
proof -
  have d: "a2a_dlq m' = a2a_dlq m"
    using enter_task_dlq [OF e] by simp
  show ?thesis
    using get_handler_for_task_Some [OF r] e o d stream_except_dlq
    by (simp add: handle_task_send_subscribe_def Let_def split: prod.splits)
qed

lemma handle_task_send_raised:
  assumes r: "get_handler (router m) (skill_id_of p) = Some h"
    and e: "enter_task (py_or (params_sessionId p) u) p (get_task_lock (params_id p) m) = Inr (t', m')"
    and o: "outcome (h t') = Inl x"
  shows "a2a_dlq (snd (handle_task_send u p m)) =
           a2a_dlq m @ [(py_or (Some (params_id p)) ''unknown'', ''tasks/send'', HandlerException x)]"
proof -
  have d: "a2a_dlq m' = a2a_dlq m"
    using enter_task_dlq [OF e] by simp
  have st: "tasks m' = (tasks m)(params_id p \<mapsto> t')"
    using enter_task_stored [OF e] by simp
  show ?thesis
    using get_handler_for_task_Some [OF r] e o d st
    by (simp add: handle_task_send_def Let_def settle_send_dlq)
qed

subsection \<open>Facts about the sample values\<close>

lemma sample_routed [simp]:
  "get_handler (router (manager_with t h)) (Some ''echo'') = Some h"
  "get_handler (router (fresh_manager h)) (Some ''echo'') = Some h"
  by (simp_all add: manager_with_def fresh_manager_def manager_init_def register_handler_def
        router_init_def get_handler_def)

lemma sample_tasks [simp]:
  "tasks (manager_with t h) = [''t1'' \<mapsto> t]"
  "tasks (fresh_manager h) = Map.empty"
  "a2a_dlq (manager_with t h) = []"
  "a2a_dlq (fresh_manager h) = []"
  by (simp_all add: manager_with_def fresh_manager_def manager_init_def)

lemma sample_params_fields [simp]:
  "params_id (sample_params sid) = ''t1''"
  "params_sessionId (sample_params sid) = sid"
  "params_message (sample_params sid) = user_message"
  by (simp_all add: sample_params_def)

lemma stored_task_fields [simp]:
  "state (status (stored_task st)) = st"
  "history (stored_task st) = [user_message]"
  "sessionId (stored_task st) = Some ''s-old''"
  "artifacts (stored_task st) = [sample_artifact]"
  by (simp_all add: stored_task_def)

lemma sample_enter_fresh:
  "enter_task (py_or (params_sessionId (sample_params None)) ''u-1'') (sample_params None)
             (get_task_lock (params_id (sample_params None)) (fresh_manager h))
           = Inr (\<lparr>task_id = ''t1'', sessionId = Some ''u-1'', status = working_status,
                   history = [user_message], artifacts = [], task_metadata = None\<rparr>,
                  count_metric ''received''
                    ((get_task_lock ''t1'' (fresh_manager h))
                       \<lparr>tasks := [''t1'' \<mapsto>
                          \<lparr>task_id = ''t1'', sessionId = Some ''u-1'', status = working_status,
                           history = [user_message], artifacts = [], task_metadata = None\<rparr>]\<rparr>))"
  by (simp add: enter_task_def Let_def sample_params_def)

lemma sample_route_fresh:
  "get_handler (router (fresh_manager h)) (skill_id_of (sample_params None)) = Some h"
  by simp

subsection \<open>The state gate of tasks/send\<close>

text \<open>
  Claim C7, as stated, fails for a request that no handler serves: the router is asked before
  the task is looked at, so a send to a task in state \<^verbatim>\<open>failed\<close> raises the routing error
  -32601, not -32004, and a send to a task in state \<^verbatim>\<open>completed\<close> is not accepted.
\<close>

theorem unroutable_resend_counterexample:
  "fst (handle_task_send ''u-1'' (sample_params None)
          (unrouted_manager\<lparr>tasks := [''t1'' \<mapsto> stored_task ''failed'']\<rparr>))
     = Inl (A2AError (''No suitable agent handler found for skill '' @ quote @ ''echo'' @ quote)
              (- 32601))
   \<and> fst (handle_task_send ''u-1'' (sample_params None)
          (unrouted_manager\<lparr>tasks := [''t1'' \<mapsto> stored_task ''completed'']\<rparr>))
     = Inl (A2AError (''No suitable agent handler found for skill '' @ quote @ ''echo'' @ quote)
              (- 32601))"
proof -
  have "get_handler (router (unrouted_manager\<lparr>tasks := [''t1'' \<mapsto> stored_task st]\<rparr>))
          (skill_id_of (sample_params None)) = None" for st
    by (simp add: unrouted_manager_def manager_init_def router_init_def get_handler_def)
  from get_handler_for_task_None [OF this] show ?thesis
    by (simp add: handle_task_send_def Let_def)
qed

text \<open>
  Claim C7, amended: for a task that exists, a request that the router resolves to no handler
  raises an \<^verbatim>\<open>A2AError\<close> with code -32601 and leaves the registry as it was. A request
  that the router resolves is accepted exactly when the task's state is one of
  \<^verbatim>\<open>input-required\<close>, \<^verbatim>\<open>completed\<close>, \<^verbatim>\<open>working\<close>, \<^verbatim>\<open>submitted\<close>,
  \<^verbatim>\<open>canceled\<close>. When it is, the call returns without an error, and the task it stores
  under the id is the old one with the message appended to its history, the session id of
  the call, and the status \<^verbatim>\<open>working\<close>; no other entry of the registry changes. When it is
  not, \<^verbatim>\<open>handle_task_send\<close> raises an \<^verbatim>\<open>A2AError\<close> with code -32004 (the streaming
  variant puts that error on the subscriber's queue and returns), and the registry and the
  dead-letter queue are as before.
\<close>

theorem send_state_gate:
  assumes t: "tasks m (params_id p) = Some t"
  shows "(get_handler (router m) (skill_id_of p) = None \<longrightarrow>
            fst (handle_task_send u p m)
              = Inl (A2AError (''No suitable agent handler found for skill '' @ quote
                                 @ py_str (skill_id_of p) @ quote) (- 32601))
            \<and> tasks (snd (handle_task_send u p m)) = tasks m)
       \<and> (\<forall>h. get_handler (router m) (skill_id_of p) = Some h
               \<and> state (status t) \<in> set accepting_states \<longrightarrow>
            fst (handle_task_send u p m)
              = Inr (t\<lparr>history := history t @ [params_message p],
                       sessionId := Some (py_or (params_sessionId p) u),
                       status := \<lparr>state = ''working'', message = None\<rparr>\<rparr>)
            \<and> tasks (snd (handle_task_send u p m))
              = (tasks m)(params_id p \<mapsto>
                   t\<lparr>history := history t @ [params_message p],
                     sessionId := Some (py_or (params_sessionId p) u),
                     status := \<lparr>state = ''working'', message = None\<rparr>\<rparr>)
            \<and> fst (handle_task_send_subscribe u p q m) = None
            \<and> tasks (snd (snd (handle_task_send_subscribe u p q m)))
              = (tasks m)(params_id p \<mapsto>
                   t\<lparr>history := history t @ [params_message p],
                     sessionId := Some (py_or (params_sessionId p) u),
                     status := \<lparr>state = ''working'', message = None\<rparr>\<rparr>))
       \<and> (\<forall>h. get_handler (router m) (skill_id_of p) = Some h
               \<and> state (status t) \<notin> set accepting_states \<longrightarrow>
            fst (handle_task_send u p m)
              = Inl (A2AError (''Task '' @ params_id p @ '' in invalid state '' @ state (status t))
                       (- 32004))
            \<and> tasks (snd (handle_task_send u p m)) = tasks m
            \<and> a2a_dlq (snd (handle_task_send u p m)) = a2a_dlq m
            \<and> fst (handle_task_send_subscribe u p q m) = None
            \<and> fst (snd (handle_task_send_subscribe u p q m))
              = q @ [QueuedError (A2AError (''Task in invalid state '' @ state (status t)) (- 32004))]
            \<and> tasks (snd (snd (handle_task_send_subscribe u p q m))) = tasks m
            \<and> a2a_dlq (snd (snd (handle_task_send_subscribe u p q m))) = a2a_dlq m)"
proof (intro conjI allI impI)
  assume n: "get_handler (router m) (skill_id_of p) = None"
  show "fst (handle_task_send u p m)
          = Inl (A2AError (''No suitable agent handler found for skill '' @ quote
                             @ py_str (skill_id_of p) @ quote) (- 32601))"
    using get_handler_for_task_None [OF n] by (simp add: handle_task_send_def Let_def)
  show "tasks (snd (handle_task_send u p m)) = tasks m"
    using get_handler_for_task_None [OF n] by (simp add: handle_task_send_def Let_def)
next
  fix h
  assume ra: "get_handler (router m) (skill_id_of p) = Some h
              \<and> state (status t) \<in> set accepting_states"
  let ?t' = "t\<lparr>history := history t @ [params_message p],
               sessionId := Some (py_or (params_sessionId p) u),
               status := \<lparr>state = ''working'', message = None\<rparr>\<rparr>"
  let ?m0 = "get_task_lock (params_id p) m"
  have r: "get_handler (router m) (skill_id_of p) = Some h" using ra by simp
  have "enter_task (py_or (params_sessionId p) u) p ?m0
          = Inr (t\<lparr>history := history t @ [params_message p],
                   sessionId := Some (py_or (params_sessionId p) u), status := working_status\<rparr>,
                 ?m0\<lparr>tasks := (tasks ?m0)(params_id p \<mapsto>
                         t\<lparr>history := history t @ [params_message p],
                           sessionId := Some (py_or (params_sessionId p) u),
                           status := working_status\<rparr>)\<rparr>)"
    using t ra by (intro enter_task_existing) simp_all
  then have e: "enter_task (py_or (params_sessionId p) u) p ?m0
                  = Inr (?t', ?m0\<lparr>tasks := (tasks ?m0)(params_id p \<mapsto> ?t')\<rparr>)"
    by (simp add: working_status_def)
  show "fst (handle_task_send u p m) = Inr ?t'"
    using handle_task_send_entered(1) [OF r e] .
  show "tasks (snd (handle_task_send u p m)) = (tasks m)(params_id p \<mapsto> ?t')"
    using handle_task_send_entered(2) [OF r e] .
  show "fst (handle_task_send_subscribe u p q m) = None"
    using handle_task_send_subscribe_entered(1) [OF r e] .
  show "tasks (snd (snd (handle_task_send_subscribe u p q m))) = (tasks m)(params_id p \<mapsto> ?t')"
    using handle_task_send_subscribe_entered(2) [OF r e] .
next
  fix h
  assume rn: "get_handler (router m) (skill_id_of p) = Some h
              \<and> state (status t) \<notin> set accepting_states"
  then have r: "get_handler (router m) (skill_id_of p) = Some h"
    and n: "state (status t) \<notin> set accepting_states"
    by simp_all
  show "fst (handle_task_send u p m)
          = Inl (A2AError (''Task '' @ params_id p @ '' in invalid state '' @ state (status t))
                   (- 32004))"
    using handle_task_send_refused [OF r t n] by simp
  show "tasks (snd (handle_task_send u p m)) = tasks m"
    using handle_task_send_refused [OF r t n] by simp
  show "a2a_dlq (snd (handle_task_send u p m)) = a2a_dlq m"
    using handle_task_send_refused [OF r t n] by simp
  show "fst (handle_task_send_subscribe u p q m) = None"
    using handle_task_send_subscribe_refused [OF r t n] by simp
  show "fst (snd (handle_task_send_subscribe u p q m))
          = q @ [QueuedError (A2AError (''Task in invalid state '' @ state (status t)) (- 32004))]"
    using handle_task_send_subscribe_refused [OF r t n] by simp
  show "tasks (snd (snd (handle_task_send_subscribe u p q m))) = tasks m"
    using handle_task_send_subscribe_refused [OF r t n] by simp
  show "a2a_dlq (snd (snd (handle_task_send_subscribe u p q m))) = a2a_dlq m"
    using handle_task_send_subscribe_refused [OF r t n] by simp
qed

theorem send_state_gate_witness:
  "fst (handle_task_send ''u-1'' (sample_params None)
          (manager_with (stored_task ''completed'') idle_handler))
     = Inr ((stored_task ''completed'')
              \<lparr>history := [user_message, user_message], sessionId := Some ''u-1'',
               status := \<lparr>state = ''working'', message = None\<rparr>\<rparr>)
   \<and> tasks (snd (handle_task_send ''u-1'' (sample_params None)
                   (manager_with (stored_task ''canceled'') idle_handler))) ''t1''
     = Some ((stored_task ''canceled'')
              \<lparr>history := [user_message, user_message], sessionId := Some ''u-1'',
               status := \<lparr>state = ''working'', message = None\<rparr>\<rparr>)
   \<and> fst (handle_task_send ''u-1'' (sample_params None)
            (manager_with (stored_task ''failed'') idle_handler))
       = Inl (A2AError ''Task t1 in invalid state failed'' (- 32004))
   \<and> tasks (snd (handle_task_send ''u-1'' (sample_params None)
                   (manager_with (stored_task ''unknown'') idle_handler))) ''t1''
       = Some (stored_task ''unknown'')
   \<and> tasks (snd (handle_task_send ''u-1'' (sample_params None)
                   (unrouted_manager\<lparr>tasks := [''t1'' \<mapsto> stored_task ''completed'']\<rparr>))) ''t1''
       = Some (stored_task ''completed'')"
proof -
  have t: "tasks (manager_with (stored_task st) idle_handler) (params_id (sample_params None))
             = Some (stored_task st)" for st
    by simp
  have t': "tasks (unrouted_manager\<lparr>tasks := [''t1'' \<mapsto> stored_task ''completed'']\<rparr>)
              (params_id (sample_params None)) = Some (stored_task ''completed'')"
    by simp
  have r: "get_handler (router (manager_with (stored_task st) idle_handler))
             (skill_id_of (sample_params None)) = Some idle_handler" for st
    by simp
  have n: "get_handler (router (unrouted_manager\<lparr>tasks := [''t1'' \<mapsto> stored_task ''completed'']\<rparr>))
             (skill_id_of (sample_params None)) = None"
    by (simp add: unrouted_manager_def manager_init_def router_init_def get_handler_def)
  show ?thesis
    using send_state_gate [OF t, of "''completed''" "''u-1''" "[]"]
          send_state_gate [OF t, of "''canceled''" "''u-1''" "[]"]
          send_state_gate [OF t, of "''failed''" "''u-1''" "[]"]
          send_state_gate [OF t, of "''unknown''" "''u-1''" "[]"]
          send_state_gate [OF t', of "''u-1''" "[]"]
          r n
    by (simp add: accepting_states_def)
qed

subsection \<open>The session id of a task that is sent to again\<close>

text \<open>
  Claim C10, as stated, fails for a request whose \<^verbatim>\<open>sessionId\<close> is the empty string: the
  request supplies a session id, but \<^verbatim>\<open>params.sessionId or str(uuid.uuid4())\<close> takes the
  empty string for none, and the stored session id becomes the fresh UUID.
\<close>

theorem empty_session_id_counterexample:
  "map_option sessionId
     (tasks (snd (handle_task_send ''u-1'' (sample_params (Some []))
                    (manager_with (stored_task ''completed'') idle_handler))) ''t1'')
     = Some (Some ''u-1'')"
proof -
  have "enter_task ''u-1'' (sample_params (Some []))
          (get_task_lock ''t1'' (manager_with (stored_task ''completed'') idle_handler))
        = Inr ((stored_task ''completed'')\<lparr>history := [user_message] @ [user_message],
                   sessionId := Some ''u-1'', status := working_status\<rparr>,
               (get_task_lock ''t1'' (manager_with (stored_task ''completed'') idle_handler))
                 \<lparr>tasks := [''t1'' \<mapsto> (stored_task ''completed'')\<lparr>history := [user_message] @ [user_message],
                   sessionId := Some ''u-1'', status := working_status\<rparr>]\<rparr>)"
    by (simp add: enter_task_def accepting_states_def Let_def)
  then show ?thesis
    by (simp add: handle_task_send_def get_handler_for_task_def Let_def)
qed

text \<open>
  Claim C10, amended: when \<^verbatim>\<open>tasks/send\<close> or \<^verbatim>\<open>tasks/sendSubscribe\<close> is accepted for a
  task that exists, the stored session id becomes the request's \<^verbatim>\<open>sessionId\<close> when that is
  a non-empty string, and the freshly generated UUID when it is absent or empty. The session
  id stored before plays no part in either case.
\<close>

theorem resend_overwrites_session:
  assumes t: "tasks m (params_id p) = Some t"
    and r: "get_handler (router m) (skill_id_of p) = Some h"
    and a: "state (status t) \<in> set accepting_states"
  shows "(\<forall>s. params_sessionId p = Some s \<and> s \<noteq> [] \<longrightarrow>
            map_option sessionId (tasks (snd (handle_task_send u p m)) (params_id p))
              = Some (Some s)
            \<and> map_option sessionId
                (tasks (snd (snd (handle_task_send_subscribe u p q m))) (params_id p))
              = Some (Some s))
       \<and> (params_sessionId p = None \<or> params_sessionId p = Some [] \<longrightarrow>
            map_option sessionId (tasks (snd (handle_task_send u p m)) (params_id p))
              = Some (Some u)
            \<and> map_option sessionId
                (tasks (snd (snd (handle_task_send_subscribe u p q m))) (params_id p))
              = Some (Some u))"
proof -
  let ?sid = "py_or (params_sessionId p) u"
  let ?t' = "t\<lparr>history := history t @ [params_message p], sessionId := Some ?sid,
               status := working_status\<rparr>"
  let ?m0 = "get_task_lock (params_id p) m"
  have e: "enter_task ?sid p ?m0 = Inr (?t', ?m0\<lparr>tasks := (tasks ?m0)(params_id p \<mapsto> ?t')\<rparr>)"
    using t a by (intro enter_task_existing) simp_all
  have one: "map_option sessionId (tasks (snd (handle_task_send u p m)) (params_id p))
               = Some (Some ?sid)"
    using handle_task_send_entered(2) [OF r e] by simp
  have two: "map_option sessionId
               (tasks (snd (snd (handle_task_send_subscribe u p q m))) (params_id p))
               = Some (Some ?sid)"
    using handle_task_send_subscribe_entered(2) [OF r e] by simp
  show ?thesis
    using one two by auto
qed

theorem resend_overwrites_session_witness:
  "map_option sessionId
     (tasks (snd (handle_task_send ''u-1'' (sample_params (Some ''s-new''))
                    (manager_with (stored_task ''completed'') idle_handler))) ''t1'')
     = Some (Some ''s-new'')
   \<and> map_option sessionId
     (tasks (snd (handle_task_send ''u-1'' (sample_params None)
                    (manager_with (stored_task ''completed'') idle_handler))) ''t1'')
     = Some (Some ''u-1'')
   \<and> map_option sessionId
     (tasks (snd (snd (handle_task_send_subscribe ''u-1'' (sample_params None) []
                    (manager_with (stored_task ''completed'') idle_handler)))) ''t1'')
     = Some (Some ''u-1'')"
proof -
  have t: "tasks (manager_with (stored_task ''completed'') idle_handler) (params_id (sample_params sid))
             = Some (stored_task ''completed'')" for sid
    by simp
  have r: "get_handler (router (manager_with (stored_task ''completed'') idle_handler))
             (skill_id_of (sample_params sid)) = Some idle_handler" for sid
    by simp
  have a: "state (status (stored_task ''completed'')) \<in> set accepting_states"
    by (simp add: accepting_states_def)
  show ?thesis
    using resend_overwrites_session [OF t r a, of "Some ''s-new''" "''u-1''" "[]"]
          resend_overwrites_session [OF t r a, of None "''u-1''" "[]"]
    by simp
qed

subsection \<open>The commit that never runs\<close>

text \<open>
  Claim C1 does not hold of the code. The handler's result is handed to
  \<^verbatim>\<open>_update_task_state\<close> at lines 577 and 587, but the call is not awaited, so the
  stored task keeps the status the locked section gave it. Sent to an unknown id
  \<^verbatim>\<open>t1\<close>, with a handler that completes, \<^verbatim>\<open>handle_task_send\<close> returns and stores a
  task in state \<^verbatim>\<open>working\<close>; with a handler that raises, the stored status is still
  \<^verbatim>\<open>working\<close> with no message.
\<close>

theorem send_leaves_task_working:
  "map_sum id (state \<circ> status)
     (fst (handle_task_send ''u-1'' (sample_params None) (fresh_manager idle_handler)))
     = Inr ''working''
   \<and> map_option (state \<circ> status)
       (tasks (snd (handle_task_send ''u-1'' (sample_params None) (fresh_manager idle_handler))) ''t1'')
     = Some ''working''
   \<and> map_option status
       (tasks (snd (handle_task_send ''u-1'' (sample_params None) (fresh_manager raising_handler))) ''t1'')
     = Some \<lparr>state = ''working'', message = None\<rparr>"
  using handle_task_send_entered [OF sample_route_fresh sample_enter_fresh, of idle_handler]
        handle_task_send_entered [OF sample_route_fresh sample_enter_fresh, of raising_handler]
  by (simp add: working_status_def)

lemma handle_task_cancel_dlq: "a2a_dlq (snd (handle_task_cancel tid m)) = a2a_dlq m"
  by (simp add: handle_task_cancel_def Let_def split: option.splits)

lemma handle_task_cancel_tasks: "tasks (snd (handle_task_cancel tid m)) = tasks m"
  by (simp add: handle_task_cancel_def Let_def split: option.splits)

lemma handle_task_cancel_unknown:
  assumes "tasks m tid = None"
  shows "handle_task_cancel tid m =
           (Inl (A2AError (''Task '' @ tid @ '' not found'') (- 32001)), get_task_lock tid m)"
  using assms by (simp add: handle_task_cancel_def Let_def not_found_def)

lemma handle_task_cancel_stored:
  assumes "tasks m tid = Some t"
  shows "handle_task_cancel tid m =
           (Inr t, if state (status t) \<in> set terminal_states then get_task_lock tid m
                   else count_metric ''canceled'' (get_task_lock tid m))"
  using assms by (simp add: handle_task_cancel_def Let_def)

text \<open>
  Claim C5 does not hold of the code for a task that is not terminal: line 678 calls
  \<^verbatim>\<open>_update_task_state\<close> without awaiting it. \<^verbatim>\<open>handle_task_cancel\<close> on a stored task in
  state \<^verbatim>\<open>working\<close> with one artifact returns that task as it is and leaves it so in the
  registry.
\<close>

theorem cancel_leaves_task_working:
  "fst (handle_task_cancel ''t1'' (manager_with (stored_task ''working'') idle_handler))
     = Inr (stored_task ''working'')
   \<and> tasks (snd (handle_task_cancel ''t1'' (manager_with (stored_task ''working'') idle_handler))) ''t1''
     = Some (stored_task ''working'')
   \<and> state (status (stored_task ''working'')) = ''working''
   \<and> artifacts (stored_task ''working'') = [sample_artifact]"
proof -
  have "tasks (manager_with (stored_task ''working'') idle_handler) ''t1''
          = Some (stored_task ''working'')"
    by simp
  from handle_task_cancel_stored [OF this] show ?thesis
    by (simp add: terminal_states_def)
qed

subsection \<open>The dead-letter queue\<close>

text \<open>
  No operation removes an entry. A failure of the handler under \<^verbatim>\<open>handle_task_send\<close>, by
  an exception or by a result in state \<^verbatim>\<open>failed\<close>, files exactly one.
\<close>

lemma handle_task_send_failed_result:
  assumes r: "get_handler (router m) (skill_id_of p) = Some h"
    and e: "enter_task (py_or (params_sessionId p) u) p (get_task_lock (params_id p) m) = Inr (t', m')"
    and o: "outcome (h t') = Inr res"
    and f: "state (final_status res) = ''failed''"
  shows "a2a_dlq (snd (handle_task_send u p m)) =
           a2a_dlq m @ [(py_or (Some (params_id p)) ''unknown'', ''tasks/send'',
                          HandlerFailed (message (final_status res)))]"
proof -
  have d: "a2a_dlq m' = a2a_dlq m"
    using enter_task_dlq [OF e] by simp
  have st: "tasks m' = (tasks m)(params_id p \<mapsto> t')"
    using enter_task_stored [OF e] by simp
  show ?thesis
    using get_handler_for_task_Some [OF r] e o f d st
    by (simp add: handle_task_send_def Let_def settle_send_dlq)
qed

lemma handle_task_send_dlq_grows:
  "\<exists>new. a2a_dlq (snd (handle_task_send u p m)) = a2a_dlq m @ new"
proof (cases "get_handler (router m) (skill_id_of p)")
  case None
  then show ?thesis
    using get_handler_for_task_None [OF None] by (simp add: handle_task_send_def Let_def)
next
  case (Some h)
  show ?thesis
  proof (cases "enter_task (py_or (params_sessionId p) u) p (get_task_lock (params_id p) m)")
    case (Inl st)
    then show ?thesis
      using get_handler_for_task_Some [OF Some] by (simp add: handle_task_send_def Let_def)
  next
    case (Inr tm)
    obtain t' m' where tm: "tm = (t', m')" by (cases tm)
    have d: "a2a_dlq m' = a2a_dlq m"
      using enter_task_dlq Inr tm by fastforce
    have st: "tasks m' = (tasks m)(params_id p \<mapsto> t')"
      using enter_task_stored Inr tm by fastforce
    show ?thesis
      using get_handler_for_task_Some [OF Some] Inr tm d st
      by (simp add: handle_task_send_def Let_def settle_send_dlq split: sum.splits)
  qed
qed

lemma handle_task_send_subscribe_dlq_grows:
  "\<exists>new. a2a_dlq (snd (snd (handle_task_send_subscribe u p q m))) = a2a_dlq m @ new"
proof (cases "get_handler (router m) (skill_id_of p)")
  case None
  then show ?thesis
    using get_handler_for_task_None [OF None]
    by (simp add: handle_task_send_subscribe_def Let_def)
next
  case (Some h)
  show ?thesis
  proof (cases "enter_task (py_or (params_sessionId p) u) p (get_task_lock (params_id p) m)")
    case (Inl st)
    then show ?thesis
      using get_handler_for_task_Some [OF Some]
      by (simp add: handle_task_send_subscribe_def Let_def)
  next
    case (Inr tm)
    obtain t' m' where tm: "tm = (t', m')" by (cases tm)
    have d: "a2a_dlq m' = a2a_dlq m"
      using enter_task_dlq Inr tm by fastforce
    have x: "a2a_dlq (snd (stream_except tid e arts ctx m')) =
               a2a_dlq m @ [(py_or (Some tid) ''unknown'', ''tasks/sendSubscribe'', HandlerException e),
                  (py_or (Some tid) ''unknown'', ''tasks/sendSubscribe'',
                   StreamHandlerFailed (message (failed_status e)))]" for tid e arts ctx
      using stream_except_dlq [of tid e arts ctx m'] d by simp
    show ?thesis
      using get_handler_for_task_Some [OF Some] Inr tm d x
      by (auto simp: handle_task_send_subscribe_def Let_def stream_finally_dlq
            split: sum.splits prod.splits)
  qed
qed

lemma handle_task_get_dlq: "a2a_dlq (snd (handle_task_get tid n m)) = a2a_dlq m"
  by (simp add: handle_task_get_def Let_def split: option.splits)

text \<open>
  Claim C4 does not hold of the code for a streaming handler that raises: the \<^verbatim>\<open>except\<close>
  block of \<^verbatim>\<open>handle_task_send_subscribe\<close> files an entry (line 643) and the
  \<^verbatim>\<open>finally\<close> block, finding the status \<^verbatim>\<open>failed\<close>, files another (line 650). The same
  handler under \<^verbatim>\<open>handle_task_send\<close> files one.
\<close>

theorem stream_exception_files_twice:
  "a2a_dlq (snd (snd (handle_task_send_subscribe ''u-1'' (sample_params None) []
                        (fresh_manager raising_handler))))
     = [(''t1'', ''tasks/sendSubscribe'', HandlerException ''boom''),
        (''t1'', ''tasks/sendSubscribe'',
         StreamHandlerFailed (Some (agent_text_message ''Internal error: boom'')))]
   \<and> length (a2a_dlq (snd (handle_task_send ''u-1'' (sample_params None)
                        (fresh_manager raising_handler)))) = 1"
proof -
  have o: "outcome (raising_handler x) = Inl ''boom''" for x
    by (simp add: raising_handler_def)
  show ?thesis
    using handle_task_send_subscribe_raised [OF sample_route_fresh sample_enter_fresh o, of "[]"]
          handle_task_send_raised [OF sample_route_fresh sample_enter_fresh o]
    by (simp add: failed_status_def)
qed

subsection \<open>The events of a stream\<close>

lemma enter_task_id:
  "enter_task sid p m = Inr (t', m') \<Longrightarrow> tasks m (params_id p) = None \<Longrightarrow> task_id t' = params_id p"
  by (auto simp: enter_task_def Let_def split: option.splits if_splits)

lemma stream_queue_after_one_call:
  assumes r: "get_handler (router m) (skill_id_of p) = Some h"
    and e: "enter_task (py_or (params_sessionId p) u) p (get_task_lock (params_id p) m) = Inr (t', m')"
    and c: "calls (h t') = [UpdateStatus st txt fin]"
    and o: "outcome (h t') = Inr res"
  shows "fst (snd (handle_task_send_subscribe u p q m)) =
           q @ [A2ATaskStatusUpdateEventResult (task_id t')
                  \<lparr>state = ''working'',
                   message = Some (agent_text_message ''Task submitted for processing...'')\<rparr> False,
                A2ATaskStatusUpdateEventResult (task_id t')
                  \<lparr>state = st,
                   message = (if truthy txt then Some (agent_text_message (py_str txt)) else None)\<rparr> fin,
                (case first_part_text (message (final_status res)) of
                   Inl x \<Rightarrow> A2ATaskStatusUpdateEventResult (task_id t') (failed_status x) True
                 | Inr ftxt \<Rightarrow>
                     A2ATaskStatusUpdateEventResult (task_id t')
                       \<lparr>state = state (final_status res),
                        message = (if truthy ftxt then Some (agent_text_message (py_str ftxt))
                                   else None)\<rparr> True)]"
  using get_handler_for_task_Some [OF r] e c o
  by (simp add: handle_task_send_subscribe_def Let_def update_status_queued stream_except_queue
        queue_of_def split: sum.splits prod.splits)

text \<open>
  Claim C3, as stated, fails: the manager puts its own \<^verbatim>\<open>working\<close> event on the queue
  before it calls the handler (line 628), so a handler that reports \<^verbatim>\<open>working\<close> once and
  completes leaves three events, not two.
\<close>

theorem stream_two_events_counterexample:
  "fst (snd (handle_task_send_subscribe ''u-1'' (sample_params None) []
               (fresh_manager reporting_handler)))
     = [A2ATaskStatusUpdateEventResult ''t1''
          \<lparr>state = ''working'',
           message = Some (agent_text_message ''Task submitted for processing...'')\<rparr> False,
        A2ATaskStatusUpdateEventResult ''t1'' \<lparr>state = ''working'', message = None\<rparr> False,
        A2ATaskStatusUpdateEventResult ''t1'' \<lparr>state = ''completed'', message = None\<rparr> True]
   \<and> length (fst (snd (handle_task_send_subscribe ''u-1'' (sample_params None) []
                         (fresh_manager reporting_handler)))) = 3"
proof -
  have c: "calls (reporting_handler x) = [UpdateStatus ''working'' None False]" for x
    by (simp add: reporting_handler_def)
  have o: "outcome (reporting_handler x) = Inr (A2ATaskResult ''completed'' None (Some [sample_artifact]))" for x
    by (simp add: reporting_handler_def)
  show ?thesis
    using stream_queue_after_one_call [OF sample_route_fresh sample_enter_fresh c o, of "[]"]
    by (simp add: A2ATaskResult_def first_part_text_def)
qed

text \<open>
  Claim C3, amended: for a streaming request that is routed and accepted, whose handler calls
  \<^verbatim>\<open>update_status("working")\<close> exactly once and returns a completed result with one
  artifact, exactly three events are put on the subscriber's queue, all of them status events
  for the task: the manager's \<^verbatim>\<open>working\<close> event and the handler's, neither final, and
  then one final event, which is \<^verbatim>\<open>completed\<close> when the result has no message. No
  artifact event is among them.
\<close>

theorem stream_three_status_events:
  assumes r: "get_handler (router m) (skill_id_of p) = Some h"
    and e: "enter_task (py_or (params_sessionId p) u) p (get_task_lock (params_id p) m) = Inr (t', m')"
    and c: "calls (h t') = [UpdateStatus ''working'' txt False]"
    and o: "outcome (h t') = Inr res"
    and s: "state (final_status res) = ''completed''"
    and a: "result_artifacts res = [art]"
  shows "\<exists>s1 s2 s3.
           fst (snd (handle_task_send_subscribe u p q m)) =
             q @ [A2ATaskStatusUpdateEventResult (task_id t') s1 False,
                  A2ATaskStatusUpdateEventResult (task_id t') s2 False,
                  A2ATaskStatusUpdateEventResult (task_id t') s3 True]
           \<and> state s1 = ''working'' \<and> state s2 = ''working''
           \<and> (message (final_status res) = None \<longrightarrow> state s3 = ''completed'')"
proof (cases "first_part_text (message (final_status res))")
  case (Inl x)
  then have "message (final_status res) \<noteq> None"
    by (cases "message (final_status res)") (simp_all add: first_part_text_def)
  then show ?thesis
    using stream_queue_after_one_call [OF r e c o, of q] Inl by auto
next
  case (Inr ftxt)
  then show ?thesis
    using stream_queue_after_one_call [OF r e c o, of q] s
    by (auto simp: first_part_text_def)
qed

theorem stream_three_status_events_witness:
  "\<exists>s1 s2 s3.
     fst (snd (handle_task_send_subscribe ''u-1'' (sample_params None) []
                 (fresh_manager reporting_handler)))
       = [A2ATaskStatusUpdateEventResult ''t1'' s1 False,
          A2ATaskStatusUpdateEventResult ''t1'' s2 False,
          A2ATaskStatusUpdateEventResult ''t1'' s3 True]
     \<and> state s1 = ''working'' \<and> state s2 = ''working'' \<and> state s3 = ''completed''"
proof -
  have c: "calls (reporting_handler x) = [UpdateStatus ''working'' None False]" for x
    by (simp add: reporting_handler_def)
  have o: "outcome (reporting_handler x) = Inr (A2ATaskResult ''completed'' None (Some [sample_artifact]))" for x
    by (simp add: reporting_handler_def)
  have s: "state (final_status (A2ATaskResult ''completed'' None (Some [sample_artifact]))) = ''completed''"
    by (simp add: A2ATaskResult_def)
  have a: "result_artifacts (A2ATaskResult ''completed'' None (Some [sample_artifact])) = [sample_artifact]"
    by (simp add: A2ATaskResult_def)
  have n: "message (final_status (A2ATaskResult ''completed'' None (Some [sample_artifact]))) = None"
    by (simp add: A2ATaskResult_def)
  show ?thesis
    using stream_three_status_events [OF sample_route_fresh sample_enter_fresh c o s a, of "[]"] n
    by simp
qed

text \<open>
  The result's artifact reaches neither the queue nor, the commit of line 648 not being
  awaited, the registry.
\<close>

lemma stream_result_not_committed:
  "map_option artifacts
     (tasks (snd (snd (handle_task_send_subscribe ''u-1'' (sample_params None) []
                         (fresh_manager reporting_handler)))) ''t1'') = Some []
   \<and> map_option (state \<circ> status)
     (tasks (snd (snd (handle_task_send_subscribe ''u-1'' (sample_params None) []
                         (fresh_manager reporting_handler)))) ''t1'') = Some ''working''"
  using handle_task_send_subscribe_entered(2) [OF sample_route_fresh sample_enter_fresh, of "[]"]
  by (simp add: working_status_def)

subsection \<open>tasks/get\<close>

lemma py_slice_last:
  "0 < n \<Longrightarrow> py_slice_from (- n) xs = drop (length xs - nat n) xs"
proof -
  assume "0 < n"
  then have "nat (max (int (length xs) + - n) 0) = length xs - nat n"
    by linarith
  with \<open>0 < n\<close> show ?thesis
    by (simp add: py_slice_from_def Let_def)
qed

lemma py_slice_zero: "py_slice_from 0 xs = xs"
  by (simp add: py_slice_from_def Let_def)

lemma handle_task_get_positive:
  assumes "tasks m tid = Some t" and "0 < n"
  shows "fst (handle_task_get tid n m)
           = Inr (t\<lparr>history := drop (length (history t) - nat n) (history t)\<rparr>)"
proof (cases "history t = []")
  case True
  then have "t\<lparr>history := drop (length (history t) - nat n) (history t)\<rparr> = t"
    by simp
  then show ?thesis
    using assms True by (simp add: handle_task_get_def Let_def)
next
  case False
  then show ?thesis
    using assms by (simp add: handle_task_get_def Let_def py_slice_last)
qed

text \<open>
  Claim C2, as stated, fails for a negative \<^verbatim>\<open>historyLength\<close>: the guard
  \<^verbatim>\<open>history_length >= 0\<close> keeps the slice away from it, and the copy is returned with its
  whole history.
\<close>

theorem negative_history_length_counterexample:
  "map_sum id history
     (fst (handle_task_get ''t1'' (- 1) (manager_with (stored_task ''completed'') idle_handler)))
     = Inr [user_message]"
  by (simp add: handle_task_get_def Let_def)

text \<open>
  For \<^verbatim>\<open>historyLength == 0\<close> and a task with messages the first branch is taken, and
  \<^verbatim>\<open>history[-0:]\<close> is the whole history; the branch that empties it is reached for an
  empty history only.
\<close>

lemma zero_history_length_keeps_history:
  "map_sum id history
     (fst (handle_task_get ''t1'' 0 (manager_with (stored_task ''completed'') idle_handler)))
     = Inr [user_message]"
  by (simp add: handle_task_get_def Let_def py_slice_zero)

text \<open>
  Claim C2, amended: \<^verbatim>\<open>handle_task_get\<close> on an unknown id raises an \<^verbatim>\<open>A2AError\<close> with
  code -32001. For a stored task it returns a copy whose history is the last \<open>N\<close> messages
  for \<^verbatim>\<open>historyLength == N > 0\<close> (exactly \<open>N\<close> of them when at least \<open>N\<close> exist, all of
  them otherwise) and the whole history for a negative \<^verbatim>\<open>historyLength\<close>. The registry is
  the same after the call as before.
\<close>

theorem task_get_history:
  "(tasks m tid = None \<longrightarrow>
      fst (handle_task_get tid n m) = Inl (A2AError (''Task '' @ tid @ '' not found'') (- 32001)))
   \<and> (\<forall>t. tasks m tid = Some t \<and> 0 < n \<longrightarrow>
         fst (handle_task_get tid n m)
           = Inr (t\<lparr>history := drop (length (history t) - nat n) (history t)\<rparr>))
   \<and> (\<forall>t. tasks m tid = Some t \<and> 0 < n \<and> nat n \<le> length (history t) \<longrightarrow>
         (\<exists>t' older. fst (handle_task_get tid n m) = Inr t'
              \<and> length (history t') = nat n \<and> history t = older @ history t'))
   \<and> (\<forall>t. tasks m tid = Some t \<and> n < 0 \<longrightarrow> fst (handle_task_get tid n m) = Inr t)
   \<and> tasks (snd (handle_task_get tid n m)) = tasks m"
proof (intro conjI allI impI)
  assume "tasks m tid = None"
  then show "fst (handle_task_get tid n m)
               = Inl (A2AError (''Task '' @ tid @ '' not found'') (- 32001))"
    by (simp add: handle_task_get_def Let_def not_found_def)
next
  fix t assume "tasks m tid = Some t \<and> 0 < n"
  then show "fst (handle_task_get tid n m)
               = Inr (t\<lparr>history := drop (length (history t) - nat n) (history t)\<rparr>)"
    using handle_task_get_positive by blast
next
  fix t assume a: "tasks m tid = Some t \<and> 0 < n \<and> nat n \<le> length (history t)"
  let ?k = "length (history t) - nat n"
  have g: "fst (handle_task_get tid n m) = Inr (t\<lparr>history := drop ?k (history t)\<rparr>)"
    using a handle_task_get_positive by blast
  have l: "length (history (t\<lparr>history := drop ?k (history t)\<rparr>)) = nat n"
    using a by simp
  have s: "history t = take ?k (history t) @ history (t\<lparr>history := drop ?k (history t)\<rparr>)"
    by simp
  show "\<exists>t' older. fst (handle_task_get tid n m) = Inr t'
              \<and> length (history t') = nat n \<and> history t = older @ history t'"
    using g l s by blast
next
  fix t assume "tasks m tid = Some t \<and> n < 0"
  then show "fst (handle_task_get tid n m) = Inr t"
    by (simp add: handle_task_get_def Let_def)
next
  show "tasks (snd (handle_task_get tid n m)) = tasks m"
    by (simp add: handle_task_get_def Let_def split: option.splits)
qed

theorem task_get_history_witness:
  "fst (handle_task_get ''t9'' 2 (manager_with (stored_task ''completed'') idle_handler))
     = Inl (A2AError ''Task t9 not found'' (- 32001))
   \<and> map_sum id history
       (fst (handle_task_get ''t1'' 2
          (manager_with ((stored_task ''completed'')
             \<lparr>history := [user_message, agent_text_message ''one'', agent_text_message ''two'']\<rparr>)
             idle_handler)))
     = Inr [agent_text_message ''one'', agent_text_message ''two'']
   \<and> fst (handle_task_get ''t1'' (- 2) (manager_with (stored_task ''completed'') idle_handler))
     = Inr (stored_task ''completed'')
   \<and> tasks (snd (handle_task_get ''t1'' 2 (manager_with (stored_task ''completed'') idle_handler))) ''t1''
     = Some (stored_task ''completed'')"
  using task_get_history [of "manager_with (stored_task ''completed'') idle_handler" "''t9''" 2]
        task_get_history [of "manager_with ((stored_task ''completed'')
             \<lparr>history := [user_message, agent_text_message ''one'', agent_text_message ''two'']\<rparr>)
             idle_handler" "''t1''" 2]
        task_get_history [of "manager_with (stored_task ''completed'') idle_handler" "''t1''" "- 2"]
        task_get_history [of "manager_with (stored_task ''completed'') idle_handler" "''t1''" 2]
  by simp

end
